theory Spec2Isabelle
  imports Main "HOL-Library.Word"
begin

section \<open>The task form of \<^verbatim>\<open>src/frontend/components/TaskForm.tsx\<close>\<close>

text \<open>
  The component is a React function component. Its state is the seven \<^verbatim>\<open>useState\<close>
  cells; its operations are the closures \<^verbatim>\<open>validateForm\<close>, \<^verbatim>\<open>handleSubmit\<close> and
  \<^verbatim>\<open>handleChange\<close>. Each handler runs on the state of the render that created it, which
  is the current state when an event is delivered, so a handler is modelled as a function
  from the current state to the next one. The persistence callback \<^verbatim>\<open>onSubmit\<close> and
  \<^verbatim>\<open>toast.error\<close> are external: their invocations are recorded in a trace.

  The copy of the component in \<^verbatim>\<open>src/unnamed/part_000\<close> has the same three closures;
  only the texts of the three validation messages and the markup differ.
\<close>

subsection \<open>JavaScript strings\<close>

text \<open>
  A JavaScript string is a sequence of UTF-16 code units, and \<^verbatim>\<open>.length\<close> counts code
  units.
\<close>

type_synonym jsstring = "16 word list"

text \<open>An ASCII literal of the source as a sequence of code units.\<close>

definition js :: "string \<Rightarrow> jsstring" where
  "js s = map (\<lambda>c. of_nat (of_char c)) s"

text \<open>
  \<^verbatim>\<open>String.prototype.trim\<close> removes the code units of \<^verbatim>\<open>WhiteSpace\<close> and
  \<^verbatim>\<open>LineTerminator\<close> of ECMAScript from both ends: TAB, VT, FF, ZWNBSP, the Unicode
  space separators, and LF, CR, LS, PS. All of them are single code units.
\<close>

definition isWhiteSpace :: "16 word \<Rightarrow> bool" where
  "isWhiteSpace c =
     (c = 0x0009 \<or> c = 0x000A \<or> c = 0x000B \<or> c = 0x000C \<or> c = 0x000D \<or> c = 0x0020
      \<or> c = 0x00A0 \<or> c = 0x1680 \<or> (0x2000 \<le> c \<and> c \<le> 0x200A) \<or> c = 0x2028
      \<or> c = 0x2029 \<or> c = 0x202F \<or> c = 0x205F \<or> c = 0x3000 \<or> c = 0xFEFF)"

definition trim :: "jsstring \<Rightarrow> jsstring" where
  "trim s = rev (dropWhile isWhiteSpace (rev (dropWhile isWhiteSpace s)))"

text \<open>A string is truthy when it is not empty; \<^verbatim>\<open>undefined\<close> is falsy.\<close>

definition truthy :: "jsstring \<Rightarrow> bool" where
  "truthy s = (s \<noteq> [])"

definition truthyOpt :: "jsstring option \<Rightarrow> bool" where
  "truthyOpt v = (case v of None \<Rightarrow> False | Some s \<Rightarrow> truthy s)"

subsection \<open>Data\<close>

text \<open>\<^verbatim>\<open>interface FormData { title: string; description: string }\<close>\<close>

record FormData =
  title :: jsstring
  description :: jsstring

text \<open>
  \<^verbatim>\<open>interface ValidationErrors { title?: string; description?: string }\<close>. A missing
  key and a key holding \<^verbatim>\<open>undefined\<close> are both \<open>None\<close>: the component only ever reads
  an entry for its truthiness and for display, where the two agree.
\<close>

record ValidationErrors =
  errTitle :: "jsstring option"
  errDescription :: "jsstring option"

text \<open>
  The \<^verbatim>\<open>name\<close> attribute of the event target of \<^verbatim>\<open>handleChange\<close>: the handler is
  attached to the input named \<^verbatim>\<open>title\<close> and the textarea named \<^verbatim>\<open>description\<close>.
\<close>

datatype fieldName = Title | Description

text \<open>
  A \<^verbatim>\<open>Date\<close> object: its time value in milliseconds, or the invalid date. The
  component stores and forwards dates and never looks inside one.
\<close>

datatype Date = TimeValue int | InvalidDate

text \<open>The \<^verbatim>\<open>useState\<close> cells of the component.\<close>

record TaskFormState =
  formData :: FormData
  category :: "jsstring option"
  priority :: jsstring
  dueDate :: "Date option"
  loading :: bool
  validationErrors :: ValidationErrors
  error :: jsstring

text \<open>
  The props read by the handlers, after the defaults of the parameter list have been
  applied (\<^verbatim>\<open>initialTitle = ''\<close>, \<^verbatim>\<open>initialDescription = ''\<close>, the others \<^verbatim>\<open>null\<close>).
\<close>

record TaskFormProps =
  initialTitle :: jsstring
  initialDescription :: jsstring
  initialCategory :: "jsstring option"
  initialPriority :: "jsstring option"
  initialDueDate :: "jsstring option"

text \<open>The arguments of one call of \<^verbatim>\<open>onSubmit\<close>.\<close>

record SubmitArgs =
  argTitle :: jsstring
  argDescription :: jsstring
  argCategory :: "jsstring option"
  argPriority :: jsstring
  argDueDate :: "Date option"

text \<open>
  What a call of \<^verbatim>\<open>onSubmit\<close> can do: return a promise that is fulfilled, return a
  promise that is rejected with a value, throw a value before returning, or return a
  promise that never settles. A thrown or rejected value is an instance of
  \<^verbatim>\<open>Error\<close> with its \<^verbatim>\<open>message\<close>, or any other value (a string, a plain object such
  as a parsed response body, ...) with the message it carries, if it carries one.
\<close>

datatype thrown = ErrorInstance jsstring | NonError "jsstring option"

datatype outcome = Fulfilled | Rejected thrown | Threw thrown | Pending

type_synonym onSubmit = "SubmitArgs \<Rightarrow> outcome"

text \<open>
  The component state together with the trace of external effects: the calls of
  \<^verbatim>\<open>onSubmit\<close> and the messages passed to \<^verbatim>\<open>toast.error\<close>, oldest first.
\<close>

record World =
  ui :: TaskFormState
  calls :: "SubmitArgs list"
  toasts :: "jsstring list"

subsection \<open>Mounting\<close>

text \<open>
  The initial values of the cells (lines 46 to 59). \<^verbatim>\<open>new Date(initialDueDate)\<close> is
  the date parser of the platform, a parameter here.
\<close>

definition initialState :: "(jsstring \<Rightarrow> Date) \<Rightarrow> TaskFormProps \<Rightarrow> TaskFormState" where
  "initialState parseDate p =
     \<lparr> formData = \<lparr> title = initialTitle p, description = initialDescription p \<rparr>,
       category = initialCategory p,
       priority = (case initialPriority p of None \<Rightarrow> js ''medium''
                   | Some v \<Rightarrow> if truthy v then v else js ''medium''),
       dueDate = (case initialDueDate p of None \<Rightarrow> None
                  | Some v \<Rightarrow> if truthy v then Some (parseDate v) else None),
       loading = False,
       validationErrors = \<lparr> errTitle = None, errDescription = None \<rparr>,
       error = [] \<rparr>"

definition mount :: "(jsstring \<Rightarrow> Date) \<Rightarrow> TaskFormProps \<Rightarrow> World" where
  "mount parseDate p = \<lparr> ui = initialState parseDate p, calls = [], toasts = [] \<rparr>"

subsection \<open>Validation\<close>

text \<open>
  \<^verbatim>\<open>validateForm\<close> (lines 61 to 73): builds a fresh \<^verbatim>\<open>errors\<close> object, stores it with
  \<^verbatim>\<open>setValidationErrors(errors)\<close> and returns whether it has no key.
\<close>

definition titleError :: "jsstring \<Rightarrow> jsstring option" where
  "titleError t =
     (if \<not> truthy (trim t) then Some (js ''Task title is required'')
      else if length t > 200 then Some (js ''Title must be under 200 characters'')
      else None)"

definition descriptionError :: "jsstring \<Rightarrow> jsstring option" where
  "descriptionError d =
     (if length d > 1000 then Some (js ''Description must be under 1000 characters'')
      else None)"

definition objectKeys :: "ValidationErrors \<Rightarrow> fieldName list" where
  "objectKeys e =
     (case errTitle e of None \<Rightarrow> [] | Some _ \<Rightarrow> [Title])
     @ (case errDescription e of None \<Rightarrow> [] | Some _ \<Rightarrow> [Description])"

definition validateForm :: "TaskFormState \<Rightarrow> bool \<times> TaskFormState" where
  "validateForm s =
     (let errors = \<lparr> errTitle = titleError (title (formData s)),
                      errDescription = descriptionError (description (formData s)) \<rparr>
      in (length (objectKeys errors) = 0, s\<lparr>validationErrors := errors\<rparr>))"

subsection \<open>Editing\<close>

text \<open>\<^verbatim>\<open>{ ...prev, [name]: value }\<close> on the draft.\<close>

definition setField :: "fieldName \<Rightarrow> jsstring \<Rightarrow> FormData \<Rightarrow> FormData" where
  "setField name v prev =
     (case name of Title \<Rightarrow> prev\<lparr>title := v\<rparr> | Description \<Rightarrow> prev\<lparr>description := v\<rparr>)"

text \<open>\<^verbatim>\<open>validationErrors[name]\<close> and \<^verbatim>\<open>{ ...prev, [name]: undefined }\<close>.\<close>

definition getError :: "ValidationErrors \<Rightarrow> fieldName \<Rightarrow> jsstring option" where
  "getError e name = (case name of Title \<Rightarrow> errTitle e | Description \<Rightarrow> errDescription e)"

definition clearError :: "fieldName \<Rightarrow> ValidationErrors \<Rightarrow> ValidationErrors" where
  "clearError name prev =
     (case name of Title \<Rightarrow> prev\<lparr>errTitle := None\<rparr> | Description \<Rightarrow> prev\<lparr>errDescription := None\<rparr>)"

text \<open>\<^verbatim>\<open>handleChange\<close> (lines 98 to 104).\<close>

definition handleChange :: "fieldName \<Rightarrow> jsstring \<Rightarrow> TaskFormState \<Rightarrow> TaskFormState" where
  "handleChange name v s =
     (let s1 = s\<lparr>formData := setField name v (formData s)\<rparr>
      in if truthyOpt (getError (validationErrors s) name)
         then s1\<lparr>validationErrors := clearError name (validationErrors s1)\<rparr>
         else s1)"

text \<open>
  The setters handed to the priority, category and date selectors (lines 218, 223,
  228).
\<close>

definition setPriority :: "jsstring \<Rightarrow> TaskFormState \<Rightarrow> TaskFormState" where
  "setPriority v s = s\<lparr>priority := v\<rparr>"

definition setCategory :: "jsstring option \<Rightarrow> TaskFormState \<Rightarrow> TaskFormState" where
  "setCategory v s = s\<lparr>category := v\<rparr>"

definition setDueDate :: "Date option \<Rightarrow> TaskFormState \<Rightarrow> TaskFormState" where
  "setDueDate v s = s\<lparr>dueDate := v\<rparr>"

subsection \<open>Submitting\<close>

text \<open>
  The arguments of the call on line 83, read from the cells as the render that created
  the handler saw them.
\<close>

definition submitArgs :: "TaskFormState \<Rightarrow> SubmitArgs" where
  "submitArgs s =
     \<lparr> argTitle = trim (title (formData s)),
       argDescription = trim (description (formData s)),
       argCategory = category s,
       argPriority = priority s,
       argDueDate = dueDate s \<rparr>"

text \<open>Lines 85 to 88.\<close>

definition resetDraft :: "TaskFormState \<Rightarrow> TaskFormState" where
  "resetDraft s =
     s\<lparr> formData := \<lparr> title = [], description = [] \<rparr>,
        category := None,
        priority := js ''medium'',
        dueDate := None \<rparr>"

text \<open>
  The rest of the \<^verbatim>\<open>try\<close> block once the awaited call has settled (lines 83 to 89):
  a rejection or a throw leaves the block with the value, a fulfilment runs the reset
  of a form mounted with no initial title and no initial description.
\<close>

definition tryBlock :: "TaskFormProps \<Rightarrow> thrown + unit \<Rightarrow> World \<Rightarrow> (thrown + unit) \<times> World" where
  "tryBlock p awaited w =
     (case awaited of
        Inl e \<Rightarrow> (Inl e, w)
      | Inr _ \<Rightarrow>
          (Inr (),
           if \<not> truthy (initialTitle p) \<and> \<not> truthy (initialDescription p)
           then w\<lparr>ui := resetDraft (ui w)\<rparr> else w))"

text \<open>Line 91: \<^verbatim>\<open>err instanceof Error ? err.message : 'Failed to save task'\<close>.\<close>

definition errorMessage :: "thrown \<Rightarrow> jsstring" where
  "errorMessage err =
     (case err of ErrorInstance m \<Rightarrow> m | NonError _ \<Rightarrow> js ''Failed to save task'')"

text \<open>The \<^verbatim>\<open>catch\<close> block (lines 91 and 92) and the \<^verbatim>\<open>finally\<close> block (line 94).\<close>

definition catchBlock :: "thrown \<Rightarrow> World \<Rightarrow> World" where
  "catchBlock err w =
     w\<lparr> ui := (ui w)\<lparr>error := errorMessage err\<rparr>,
        toasts := toasts w @ [js ''Failed to save task''] \<rparr>"

definition finallyBlock :: "World \<Rightarrow> World" where
  "finallyBlock w = w\<lparr>ui := (ui w)\<lparr>loading := False\<rparr>\<rparr>"

text \<open>
  \<^verbatim>\<open>try { ... } catch (err) { ... } finally { ... }\<close> from the point where the awaited
  call has settled: the completion of the statement (\<open>Inl\<close> a value that leaves it
  uncaught) and the world after it.
\<close>

definition afterAwait :: "TaskFormProps \<Rightarrow> thrown + unit \<Rightarrow> World \<Rightarrow> (thrown + unit) \<times> World" where
  "afterAwait p awaited w =
     (let (c1, w1) = tryBlock p awaited w;
          (c2, w2) = (case c1 of Inl e \<Rightarrow> (Inr (), catchBlock e w1) | Inr _ \<Rightarrow> (Inr (), w1))
      in (c2, finallyBlock w2))"

text \<open>
  \<^verbatim>\<open>handleSubmit\<close> (lines 75 to 96), run with no other event between the call of
  \<^verbatim>\<open>onSubmit\<close> and its settlement. The result is the world after it and the state of
  the promise that \<^verbatim>\<open>handleSubmit\<close> returns: \<open>None\<close> while it is pending (the callback
  never settles), \<open>Some (Inr ())\<close> fulfilled, \<open>Some (Inl e)\<close> rejected with \<open>e\<close>.
  \<^verbatim>\<open>e.preventDefault()\<close> acts on the DOM event only and is left out.
\<close>

definition handleSubmit ::
  "TaskFormProps \<Rightarrow> onSubmit \<Rightarrow> World \<Rightarrow> World \<times> (thrown + unit) option" where
  "handleSubmit p cb w =
     (let s1 = (ui w)\<lparr>error := []\<rparr>;
          (valid, s2) = validateForm s1
      in if \<not> valid then (w\<lparr>ui := s2\<rparr>, Some (Inr ()))
         else
           let s3 = s2\<lparr>loading := True\<rparr>;
               a = submitArgs (ui w);
               w1 = w\<lparr>ui := s3, calls := calls w @ [a]\<rparr>
           in case cb a of
                Pending \<Rightarrow> (w1, None)
              | Fulfilled \<Rightarrow> (let (c, w2) = afterAwait p (Inr ()) w1 in (w2, Some c))
              | Rejected e \<Rightarrow> (let (c, w2) = afterAwait p (Inl e) w1 in (w2, Some c))
              | Threw e \<Rightarrow> (let (c, w2) = afterAwait p (Inl e) w1 in (w2, Some c)))"

subsection \<open>Persistence callbacks\<close>

text \<open>
  Four persistence callbacks: one whose promise is always fulfilled, one whose promise
  has not settled, one whose promise is rejected with a given value and one that throws
  a given value before it returns a promise.
\<close>

fun fulfils :: onSubmit where
  "fulfils a = Fulfilled"

fun neverSettles :: onSubmit where
  "neverSettles a = Pending"

fun rejectsWith :: "thrown \<Rightarrow> onSubmit" where
  "rejectsWith e a = Rejected e"

fun throwsValue :: "thrown \<Rightarrow> onSubmit" where
  "throwsValue e a = Threw e"

subsection \<open>The rendered controls\<close>

text \<open>
  The \<^verbatim>\<open>disabled\<close> attribute of the title input (line 131), the description textarea
  (line 177), the cancel button (line 253) and the submit button (line 266) is
  \<^verbatim>\<open>loading\<close>. The three selectors get no such attribute.
\<close>

definition titleInputDisabled :: "TaskFormState \<Rightarrow> bool" where
  "titleInputDisabled s = loading s"

definition descriptionInputDisabled :: "TaskFormState \<Rightarrow> bool" where
  "descriptionInputDisabled s = loading s"

definition cancelButtonDisabled :: "TaskFormState \<Rightarrow> bool" where
  "cancelButtonDisabled s = loading s"

definition submitButtonDisabled :: "TaskFormState \<Rightarrow> bool" where
  "submitButtonDisabled s = loading s"

subsection \<open>Events\<close>

text \<open>
  The life of a mounted form is a sequence of events. The user types into one of the
  two text inputs, picks a value in one of the three selectors or presses the submit
  button; the promise returned by an earlier call of \<^verbatim>\<open>onSubmit\<close> settles. A control
  rendered with \<^verbatim>\<open>disabled\<close> delivers no event. A press of the submit button comes with
  what the callback does if it is called: throw the given value before returning, or
  return a promise, which stays unsettled until a later \<open>Settle\<close>.
\<close>

datatype event =
    ChangeField fieldName jsstring
  | SelectPriority jsstring
  | SelectCategory "jsstring option"
  | SelectDueDate "Date option"
  | Submit "thrown option"
  | Settle "thrown + unit"

text \<open>
  A mounted form: its world and the number of calls of \<^verbatim>\<open>onSubmit\<close> whose promise has
  not settled, each with a suspended \<^verbatim>\<open>handleSubmit\<close> waiting at line 83.
\<close>

record Session =
  world :: World
  pending :: nat

definition startSession :: "(jsstring \<Rightarrow> Date) \<Rightarrow> TaskFormProps \<Rightarrow> Session" where
  "startSession parseDate p = \<lparr> world = mount parseDate p, pending = 0 \<rparr>"

text \<open>
  One event. \<^verbatim>\<open>handleSubmit\<close> run with a callback whose promise has not settled is the
  handler up to its \<^verbatim>\<open>await\<close>; a settlement resumes a suspended handler with
  \<open>afterAwait\<close> on the cells as they are by then.
\<close>

definition step :: "TaskFormProps \<Rightarrow> event \<Rightarrow> Session \<Rightarrow> Session" where
  "step p ev s =
     (case ev of
        ChangeField name v \<Rightarrow>
          if (case name of Title \<Rightarrow> titleInputDisabled (ui (world s))
                         | Description \<Rightarrow> descriptionInputDisabled (ui (world s)))
          then s
          else s\<lparr>world := (world s)\<lparr>ui := handleChange name v (ui (world s))\<rparr>\<rparr>
      | SelectPriority v \<Rightarrow> s\<lparr>world := (world s)\<lparr>ui := setPriority v (ui (world s))\<rparr>\<rparr>
      | SelectCategory v \<Rightarrow> s\<lparr>world := (world s)\<lparr>ui := setCategory v (ui (world s))\<rparr>\<rparr>
      | SelectDueDate v \<Rightarrow> s\<lparr>world := (world s)\<lparr>ui := setDueDate v (ui (world s))\<rparr>\<rparr>
      | Submit thr \<Rightarrow>
          if submitButtonDisabled (ui (world s)) then s
          else (case thr of
                  Some e \<Rightarrow> s\<lparr>world := fst (handleSubmit p (throwsValue e) (world s))\<rparr>
                | None \<Rightarrow>
                    (case handleSubmit p neverSettles (world s) of
                       (w', None) \<Rightarrow> \<lparr> world = w', pending = pending s + 1 \<rparr>
                     | (w', Some _) \<Rightarrow> s\<lparr>world := w'\<rparr>))
      | Settle r \<Rightarrow>
          if pending s = 0 then s
          else \<lparr> world = snd (afterAwait p r (world s)), pending = pending s - 1 \<rparr>)"

fun run :: "TaskFormProps \<Rightarrow> Session \<Rightarrow> event list \<Rightarrow> Session" where
  "run p s [] = s"
| "run p s (ev # evs) = run p (step p ev s) evs"

subsection \<open>Concrete forms\<close>

text \<open>
  A form mounted with no initial values (its submit resets the draft) and a form
  mounted on an existing task.
\<close>

definition propsCreate :: TaskFormProps where
  "propsCreate =
     \<lparr> initialTitle = [], initialDescription = [], initialCategory = None,
       initialPriority = None, initialDueDate = None \<rparr>"

definition propsEdit :: TaskFormProps where
  "propsEdit =
     \<lparr> initialTitle = js ''Buy milk'', initialDescription = [], initialCategory = None,
       initialPriority = None, initialDueDate = None \<rparr>"

text \<open>
  An idle form holding the draft \<open>t\<close>, \<open>d\<close> with a category, a priority and a due date
  chosen, an error recorded for each field by an earlier validation and the message of
  an earlier failed submission.
\<close>

definition exState :: "jsstring \<Rightarrow> jsstring \<Rightarrow> TaskFormState" where
  "exState t d =
     \<lparr> formData = \<lparr> title = t, description = d \<rparr>,
       category = Some (js ''work''),
       priority = js ''high'',
       dueDate = Some (TimeValue 86400000),
       loading = False,
       validationErrors =
         \<lparr> errTitle = Some (js ''Task title is required''),
           errDescription = Some (js ''Description must be under 1000 characters'') \<rparr>,
       error = js ''Network down'' \<rparr>"

definition exWorld :: "jsstring \<Rightarrow> jsstring \<Rightarrow> World" where
  "exWorld t d = \<lparr> ui = exState t d, calls = [], toasts = [] \<rparr>"

text \<open>
  A date parser; a form mounted without an initial due date never consults it.
\<close>

definition parsesNothing :: "jsstring \<Rightarrow> Date" where
  "parsesNothing v = InvalidDate"

section \<open>Properties\<close>

subsection \<open>Trimming\<close>

lemma trim_length: "length (trim s) \<le> length s"
  unfolding trim_def
  by (metis length_rev length_dropWhile_le order_trans)

lemma trim_Nil_iff: "trim s = [] \<longleftrightarrow> (\<forall>c\<in>set s. isWhiteSpace c)"
proof -
  have "dropWhile isWhiteSpace s = [] \<or> \<not> isWhiteSpace (hd (dropWhile isWhiteSpace s))"
    using hd_dropWhile by blast
  then have "(\<forall>c\<in>set (dropWhile isWhiteSpace s). isWhiteSpace c) \<longleftrightarrow> dropWhile isWhiteSpace s = []"
    by (metis empty_iff list.set(1) list.set_sel(1))
  then show ?thesis
    unfolding trim_def by (simp add: dropWhile_eq_Nil_conv)
qed

lemma trim_idem_aux:
  assumes "xs = [] \<or> \<not> P (hd xs)"
  shows "dropWhile P (rev (dropWhile P (rev xs))) = rev (dropWhile P (rev xs))"
proof (cases "rev (dropWhile P (rev xs))")
  case Nil
  then show ?thesis by (simp only: dropWhile.simps)
next
  case (Cons y ys)
  have parts: "xs = rev (dropWhile P (rev xs)) @ rev (takeWhile P (rev xs))"
    by (metis rev_append rev_rev_ident takeWhile_dropWhile_id)
  with Cons have "hd xs = y" by (metis append_Cons list.sel(1))
  moreover from Cons parts have "xs \<noteq> []" by auto
  ultimately have "\<not> P y" using assms by auto
  with Cons show ?thesis by simp
qed

lemma trim_idem: "trim (trim s) = trim s"
proof -
  have h: "dropWhile isWhiteSpace s = [] \<or> \<not> isWhiteSpace (hd (dropWhile isWhiteSpace s))"
    using hd_dropWhile by blast
  show ?thesis
    unfolding trim_def
    using trim_idem_aux [of "dropWhile isWhiteSpace s" isWhiteSpace, OF h] by simp
qed

subsection \<open>Validation\<close>

lemma titleError_cases:
  "titleError t =
     (if \<forall>c\<in>set t. isWhiteSpace c then Some (js ''Task title is required'')
      else if 200 < length t then Some (js ''Title must be under 200 characters'')
      else None)"
  by (simp add: titleError_def truthy_def trim_Nil_iff)

lemma validateForm_fst:
  "fst (validateForm s) \<longleftrightarrow>
     titleError (title (formData s)) = None \<and> descriptionError (description (formData s)) = None"
  by (auto simp: validateForm_def objectKeys_def Let_def split: option.splits)

lemma validateForm_snd:
  "snd (validateForm s) =
     s\<lparr>validationErrors := \<lparr> errTitle = titleError (title (formData s)),
                               errDescription = descriptionError (description (formData s)) \<rparr>\<rparr>"
  by (simp add: validateForm_def Let_def)

text \<open>
  Claim C1, as the code has it. \<^verbatim>\<open>validateForm\<close> returns true exactly when the title
  is not empty after trimming, the title has at most 200 code units and the description
  has at most 1000. A title of white space only, of any length, gets the required-title
  error whatever the description is; a title of 201 code units or more that is not white
  space only gets the length error; a description of 1001 code units or more gets the
  description error. An entry of the stored mapping is absent exactly when its field
  passes, the stored mapping does not depend on the mapping stored before, and no other
  cell changes.
\<close>

theorem validateForm_rules:
  "(fst (validateForm s) \<longleftrightarrow>
      trim (title (formData s)) \<noteq> [] \<and> length (title (formData s)) \<le> 200
      \<and> length (description (formData s)) \<le> 1000)
   \<and> ((\<forall>c\<in>set (title (formData s)). isWhiteSpace c) \<longrightarrow>
        \<not> fst (validateForm s)
        \<and> errTitle (validationErrors (snd (validateForm s))) = Some (js ''Task title is required''))
   \<and> (201 \<le> length (title (formData s)) \<and> (\<exists>c\<in>set (title (formData s)). \<not> isWhiteSpace c) \<longrightarrow>
        \<not> fst (validateForm s)
        \<and> errTitle (validationErrors (snd (validateForm s)))
            = Some (js ''Title must be under 200 characters''))
   \<and> (1001 \<le> length (description (formData s)) \<longrightarrow>
        \<not> fst (validateForm s)
        \<and> errDescription (validationErrors (snd (validateForm s)))
            = Some (js ''Description must be under 1000 characters''))
   \<and> (errTitle (validationErrors (snd (validateForm s))) = None \<longleftrightarrow>
        trim (title (formData s)) \<noteq> [] \<and> length (title (formData s)) \<le> 200)
   \<and> (errDescription (validationErrors (snd (validateForm s))) = None \<longleftrightarrow>
        length (description (formData s)) \<le> 1000)
   \<and> snd (validateForm s) = s\<lparr>validationErrors := validationErrors (snd (validateForm s))\<rparr>
   \<and> validationErrors (snd (validateForm (s\<lparr>validationErrors := e\<rparr>)))
       = validationErrors (snd (validateForm s))"
  by (simp add: validateForm_fst validateForm_snd titleError_cases descriptionError_def trim_Nil_iff)

text \<open>
  Claim C1 as written promises the length error for every title of 201 code units or
  more. The test for an empty trimmed title comes first (line 63) and the length test is
  its \<^verbatim>\<open>else if\<close> (line 65): a title of 201 spaces gets the required-title error.
\<close>

theorem validateForm_blank_long_title_counterexample:
  "201 \<le> length (title (formData (exState (replicate 201 0x20) [])))
   \<and> \<not> fst (validateForm (exState (replicate 201 0x20) []))
   \<and> errTitle (validationErrors (snd (validateForm (exState (replicate 201 0x20) []))))
       = Some (js ''Task title is required'')
   \<and> errTitle (validationErrors (snd (validateForm (exState (replicate 201 0x20) []))))
       \<noteq> Some (js ''Title must be under 200 characters'')"
  by (simp add: validateForm_fst validateForm_snd titleError_cases exState_def isWhiteSpace_def js_def)

text \<open>
  The rules at three drafts: a blank title with a description of 1001 code units, a
  title of 201 letters, and the two limits met exactly. Each starts from stale errors on
  both fields.
\<close>

theorem validateForm_rules_witness:
  "\<not> fst (validateForm (exState (js ''   '') (replicate 1001 0x61)))
   \<and> validationErrors (snd (validateForm (exState (js ''   '') (replicate 1001 0x61))))
       = \<lparr> errTitle = Some (js ''Task title is required''),
           errDescription = Some (js ''Description must be under 1000 characters'') \<rparr>
   \<and> \<not> fst (validateForm (exState (replicate 201 0x61) []))
   \<and> validationErrors (snd (validateForm (exState (replicate 201 0x61) [])))
       = \<lparr> errTitle = Some (js ''Title must be under 200 characters''), errDescription = None \<rparr>
   \<and> fst (validateForm (exState (replicate 200 0x61) (replicate 1000 0x61)))
   \<and> validationErrors (snd (validateForm (exState (replicate 200 0x61) (replicate 1000 0x61))))
       = \<lparr> errTitle = None, errDescription = None \<rparr>"
  using validateForm_rules [of "exState (js ''   '') (replicate 1001 0x61)"]
        validateForm_rules [of "exState (replicate 201 0x61) []"]
        validateForm_rules [of "exState (replicate 200 0x61) (replicate 1000 0x61)"]
  by (simp add: exState_def isWhiteSpace_def js_def trim_Nil_iff)

subsection \<open>Submitting\<close>

text \<open>
  \<^verbatim>\<open>validateForm\<close> never reads the whole-form message, and the two ways out of
  \<^verbatim>\<open>handleSubmit\<close>: the early return of line 79, and the call of line 83 followed by the
  \<^verbatim>\<open>try\<close> statement.
\<close>

lemma validateForm_ignores_error:
  "validateForm (s\<lparr>error := m\<rparr>) = (fst (validateForm s), (snd (validateForm s))\<lparr>error := m\<rparr>)"
  by (simp add: validateForm_def Let_def)

lemma handleSubmit_invalid:
  assumes "\<not> fst (validateForm (ui w))"
  shows "handleSubmit p cb w =
           (w\<lparr>ui := (ui w)\<lparr>error := [], validationErrors := validationErrors (snd (validateForm (ui w)))\<rparr>\<rparr>,
            Some (Inr ()))"
  using assms
  by (simp add: handleSubmit_def validateForm_ignores_error validateForm_snd Let_def)

text \<open>The world at the moment \<^verbatim>\<open>onSubmit\<close> has been called.\<close>

lemma handleSubmit_valid:
  assumes "fst (validateForm (ui w))"
  shows "handleSubmit p cb w =
     (let w1 = w\<lparr>ui := (ui w)\<lparr>error := [],
                                validationErrors := \<lparr>errTitle = None, errDescription = None\<rparr>,
                                loading := True\<rparr>,
                  calls := calls w @ [submitArgs (ui w)]\<rparr>
      in case cb (submitArgs (ui w)) of
           Pending \<Rightarrow> (w1, None)
         | Fulfilled \<Rightarrow> (snd (afterAwait p (Inr ()) w1), Some (fst (afterAwait p (Inr ()) w1)))
         | Rejected e \<Rightarrow> (snd (afterAwait p (Inl e) w1), Some (fst (afterAwait p (Inl e) w1)))
         | Threw e \<Rightarrow> (snd (afterAwait p (Inl e) w1), Some (fst (afterAwait p (Inl e) w1))))"
proof -
  from assms have e: "titleError (title (formData (ui w))) = None"
      "descriptionError (description (formData (ui w))) = None"
    by (simp_all add: validateForm_fst)
  show ?thesis
    using assms
    by (simp add: handleSubmit_def validateForm_ignores_error validateForm_snd e Let_def
        split_beta split: outcome.splits)
qed

lemma afterAwait_fulfilled:
  "afterAwait p (Inr ()) w =
     (Inr (),
      if initialTitle p = [] \<and> initialDescription p = []
      then w\<lparr>ui := (resetDraft (ui w))\<lparr>loading := False\<rparr>\<rparr>
      else w\<lparr>ui := (ui w)\<lparr>loading := False\<rparr>\<rparr>)"
  by (simp add: afterAwait_def tryBlock_def finallyBlock_def truthy_def)

lemma afterAwait_failed:
  "afterAwait p (Inl e) w =
     (Inr (),
      w\<lparr>ui := (ui w)\<lparr>error := errorMessage e, loading := False\<rparr>,
        toasts := toasts w @ [js ''Failed to save task'']\<rparr>)"
  by (simp add: afterAwait_def tryBlock_def catchBlock_def finallyBlock_def)

lemma exState_valid: "fst (validateForm (exState (js ''Buy milk'') (js ''2 litres'')))"
  by (simp add: validateForm_fst titleError_cases descriptionError_def exState_def js_def isWhiteSpace_def)

text \<open>
  Claim C2, as the code has it. A submit of a draft that fails validation returns at
  line 79: \<^verbatim>\<open>onSubmit\<close> is not called, no notification is emitted, \<^verbatim>\<open>loading\<close> and
  the draft keep their values, and the promise of \<^verbatim>\<open>handleSubmit\<close> is fulfilled. Two
  cells change: the validation errors are replaced by those of this validation, and
  the whole-form message is set to the empty string by line 77.
\<close>

theorem handleSubmit_invalid_effects:
  "\<not> fst (validateForm (ui w)) \<Longrightarrow>
     fst (handleSubmit p cb w) =
       w\<lparr>ui := (ui w)\<lparr>error := [],
                        validationErrors := validationErrors (snd (validateForm (ui w)))\<rparr>\<rparr>
     \<and> snd (handleSubmit p cb w) = Some (Inr ())
     \<and> calls (fst (handleSubmit p cb w)) = calls w
     \<and> toasts (fst (handleSubmit p cb w)) = toasts w
     \<and> loading (ui (fst (handleSubmit p cb w))) = loading (ui w)
     \<and> formData (ui (fst (handleSubmit p cb w))) = formData (ui w)
     \<and> category (ui (fst (handleSubmit p cb w))) = category (ui w)
     \<and> priority (ui (fst (handleSubmit p cb w))) = priority (ui w)
     \<and> dueDate (ui (fst (handleSubmit p cb w))) = dueDate (ui w)"
  by (simp add: handleSubmit_invalid)

text \<open>
  Claim C2 as written lets nothing but the validation errors change. A form that shows
  the message of an earlier failed submission and is submitted with an empty title loses
  that message.
\<close>

theorem handleSubmit_invalid_clears_error_counterexample:
  "\<not> fst (validateForm (ui (exWorld [] [])))
   \<and> error (ui (exWorld [] [])) = js ''Network down''
   \<and> error (ui (fst (handleSubmit propsCreate fulfils (exWorld [] [])))) = []
   \<and> error (ui (fst (handleSubmit propsCreate fulfils (exWorld [] []))))
       \<noteq> error (ui (exWorld [] []))"
  by (simp add: handleSubmit_invalid validateForm_fst titleError_cases exWorld_def exState_def js_def)

text \<open>
  A submit of a title of two spaces: the result is the same world with the title
  error recorded, the stale description error gone and the message cleared.
\<close>

theorem handleSubmit_invalid_effects_witness:
  "\<not> fst (validateForm (ui (exWorld (js ''  '') [])))
   \<and> handleSubmit propsCreate fulfils (exWorld (js ''  '') []) =
       (\<lparr> ui = (exState (js ''  '') [])
                \<lparr> error := [],
                  validationErrors := \<lparr> errTitle = Some (js ''Task title is required''),
                                          errDescription = None \<rparr> \<rparr>,
           calls = [], toasts = [] \<rparr>,
        Some (Inr ()))"
proof -
  have h: "\<not> fst (validateForm (ui (exWorld (js ''  '') [])))"
    by (simp add: validateForm_fst titleError_cases exWorld_def exState_def js_def isWhiteSpace_def)
  have v: "validationErrors (snd (validateForm (exState (js ''  '') []))) =
      \<lparr> errTitle = Some (js ''Task title is required''), errDescription = None \<rparr>"
    by (simp add: validateForm_snd titleError_cases descriptionError_def exWorld_def exState_def js_def isWhiteSpace_def)
  show ?thesis
    using h handleSubmit_invalid_effects [OF h, of propsCreate fulfils]
    by (simp add: v prod_eq_iff exWorld_def)
qed

text \<open>
  Claim C3. When the draft passes validation and the call of \<^verbatim>\<open>onSubmit\<close> settles
  (its promise is fulfilled or rejected, or the call throws), \<^verbatim>\<open>loading\<close> is false
  afterwards and the promise of \<^verbatim>\<open>handleSubmit\<close> is fulfilled: nothing thrown by the
  callback leaves the handler.
\<close>

theorem handleSubmit_returns_to_idle:
  "fst (validateForm (ui w)) \<Longrightarrow> cb (submitArgs (ui w)) \<noteq> Pending \<Longrightarrow>
     snd (handleSubmit p cb w) = Some (Inr ())
     \<and> \<not> loading (ui (fst (handleSubmit p cb w)))"
  by (cases "cb (submitArgs (ui w))")
     (simp_all add: handleSubmit_valid afterAwait_fulfilled afterAwait_failed Let_def)

text \<open>
  The three ways out at a valid draft: fulfilment, rejection with an \<^verbatim>\<open>Error\<close>, and a
  throw of a value that is no \<^verbatim>\<open>Error\<close>.
\<close>

theorem handleSubmit_returns_to_idle_witness:
  "fst (validateForm (ui (exWorld (js ''Buy milk'') (js ''2 litres''))))
   \<and> snd (handleSubmit propsEdit fulfils (exWorld (js ''Buy milk'') (js ''2 litres''))) = Some (Inr ())
   \<and> \<not> loading (ui (fst (handleSubmit propsEdit fulfils (exWorld (js ''Buy milk'') (js ''2 litres'')))))
   \<and> snd (handleSubmit propsEdit (rejectsWith (ErrorInstance (js ''Server error''))) (exWorld (js ''Buy milk'') (js ''2 litres''))) = Some (Inr ())
   \<and> \<not> loading (ui (fst (handleSubmit propsEdit (rejectsWith (ErrorInstance (js ''Server error''))) (exWorld (js ''Buy milk'') (js ''2 litres'')))))
   \<and> snd (handleSubmit propsEdit (throwsValue (NonError None)) (exWorld (js ''Buy milk'') (js ''2 litres''))) = Some (Inr ())
   \<and> \<not> loading (ui (fst (handleSubmit propsEdit (throwsValue (NonError None)) (exWorld (js ''Buy milk'') (js ''2 litres'')))))"
proof -
  have h: "fst (validateForm (ui (exWorld (js ''Buy milk'') (js ''2 litres''))))"
    using exState_valid by (simp add: exWorld_def)
  show ?thesis
    using h
      handleSubmit_returns_to_idle [OF h, of fulfils propsEdit]
      handleSubmit_returns_to_idle [OF h, of "rejectsWith (ErrorInstance (js ''Server error''))" propsEdit]
      handleSubmit_returns_to_idle [OF h, of "throwsValue (NonError None)" propsEdit]
    by simp
qed

text \<open>
  Claim C4, as the code has it. When the call of \<^verbatim>\<open>onSubmit\<close> is rejected or throws,
  title, description, category, priority and due date are what they were before the
  submit; the whole-form message is the \<^verbatim>\<open>message\<close> of the value when the value is an
  instance of \<^verbatim>\<open>Error\<close>, as it is, and \<^verbatim>\<open>'Failed to save task'\<close> for every other
  value, whatever it carries; one notification is emitted; \<^verbatim>\<open>loading\<close> is false, so
  the inputs and the submit button are enabled.
\<close>

theorem handleSubmit_failure:
  "fst (validateForm (ui w)) \<Longrightarrow>
   cb (submitArgs (ui w)) = Rejected e \<or> cb (submitArgs (ui w)) = Threw e \<Longrightarrow>
     formData (ui (fst (handleSubmit p cb w))) = formData (ui w)
     \<and> category (ui (fst (handleSubmit p cb w))) = category (ui w)
     \<and> priority (ui (fst (handleSubmit p cb w))) = priority (ui w)
     \<and> dueDate (ui (fst (handleSubmit p cb w))) = dueDate (ui w)
     \<and> error (ui (fst (handleSubmit p cb w))) =
         (case e of ErrorInstance m \<Rightarrow> m | NonError _ \<Rightarrow> js ''Failed to save task'')
     \<and> toasts (fst (handleSubmit p cb w)) = toasts w @ [js ''Failed to save task'']
     \<and> \<not> loading (ui (fst (handleSubmit p cb w)))
     \<and> \<not> submitButtonDisabled (ui (fst (handleSubmit p cb w)))
     \<and> \<not> titleInputDisabled (ui (fst (handleSubmit p cb w)))
     \<and> \<not> descriptionInputDisabled (ui (fst (handleSubmit p cb w)))
     \<and> snd (handleSubmit p cb w) = Some (Inr ())"
  by (auto simp: handleSubmit_valid afterAwait_failed Let_def errorMessage_def
      submitButtonDisabled_def titleInputDisabled_def descriptionInputDisabled_def)

text \<open>
  Claim C4 as written records the message the callback reports and falls back to the
  generic text when the value carries none. Line 91 asks whether the value is an
  \<^verbatim>\<open>Error\<close>, not whether it carries a message: a rejection with a value that is no
  \<^verbatim>\<open>Error\<close> and carries \<^verbatim>\<open>'quota exceeded'\<close> records the generic text, and a rejection
  with \<^verbatim>\<open>new Error('')\<close> records the empty string.
\<close>

theorem handleSubmit_failure_message_counterexample:
  "fst (validateForm (ui (exWorld (js ''Buy milk'') (js ''2 litres''))))
   \<and> error (ui (fst (handleSubmit propsCreate (rejectsWith (NonError (Some (js ''quota exceeded''))))
         (exWorld (js ''Buy milk'') (js ''2 litres''))))) = js ''Failed to save task''
   \<and> js ''Failed to save task'' \<noteq> js ''quota exceeded''
   \<and> error (ui (fst (handleSubmit propsCreate (rejectsWith (ErrorInstance []))
         (exWorld (js ''Buy milk'') (js ''2 litres''))))) = []
   \<and> [] \<noteq> js ''Failed to save task''"
proof -
  have h: "fst (validateForm (ui (exWorld (js ''Buy milk'') (js ''2 litres''))))"
    using exState_valid by (simp add: exWorld_def)
  show ?thesis
    using h by (simp add: handleSubmit_valid afterAwait_failed errorMessage_def js_def)
qed

text \<open>
  A rejection with \<^verbatim>\<open>new Error('Server error')\<close> and a throw of a value that is no
  \<^verbatim>\<open>Error\<close>.
\<close>

theorem handleSubmit_failure_witness:
  "fst (validateForm (ui (exWorld (js ''Buy milk'') (js ''2 litres''))))
   \<and> formData (ui (fst (handleSubmit propsCreate (rejectsWith (ErrorInstance (js ''Server error'')))
         (exWorld (js ''Buy milk'') (js ''2 litres'')))))
       = \<lparr> title = js ''Buy milk'', description = js ''2 litres'' \<rparr>
   \<and> error (ui (fst (handleSubmit propsCreate (rejectsWith (ErrorInstance (js ''Server error'')))
         (exWorld (js ''Buy milk'') (js ''2 litres''))))) = js ''Server error''
   \<and> toasts (fst (handleSubmit propsCreate (rejectsWith (ErrorInstance (js ''Server error'')))
         (exWorld (js ''Buy milk'') (js ''2 litres'')))) = [js ''Failed to save task'']
   \<and> \<not> loading (ui (fst (handleSubmit propsCreate (rejectsWith (ErrorInstance (js ''Server error'')))
         (exWorld (js ''Buy milk'') (js ''2 litres'')))))
   \<and> error (ui (fst (handleSubmit propsCreate (throwsValue (NonError None))
         (exWorld (js ''Buy milk'') (js ''2 litres''))))) = js ''Failed to save task''"
proof -
  have h: "fst (validateForm (ui (exWorld (js ''Buy milk'') (js ''2 litres''))))"
    using exState_valid by (simp add: exWorld_def)
  show ?thesis
    using h
      handleSubmit_failure [OF h, of "rejectsWith (ErrorInstance (js ''Server error''))"
        "ErrorInstance (js ''Server error'')" propsCreate]
      handleSubmit_failure [OF h, of "throwsValue (NonError None)" "NonError None" propsCreate]
    by (simp add: exWorld_def exState_def)
qed

subsection \<open>Submitting while a submission is in flight\<close>

text \<open>
  \<^verbatim>\<open>handleSubmit\<close> sets \<^verbatim>\<open>loading\<close> before it calls \<^verbatim>\<open>onSubmit\<close> (line 81) and clears
  it only in the \<^verbatim>\<open>finally\<close> block (line 94), and the submit button is disabled while
  \<^verbatim>\<open>loading\<close> is true (line 266). So every event keeps \<^verbatim>\<open>loading\<close> in step with the
  calls in flight: it is true exactly when there is one, and there is never a second.
\<close>

lemma step_keeps_pending_in_step_with_loading:
  assumes "pending s = (if loading (ui (world s)) then 1 else 0)"
  shows "pending (step p ev s) = (if loading (ui (world (step p ev s))) then 1 else 0)"
proof (cases ev)
  case (ChangeField name v)
  with assms show ?thesis
    by (cases name)
       (simp_all add: step_def handleChange_def titleInputDisabled_def
          descriptionInputDisabled_def Let_def)
next
  case (SelectPriority v)
  with assms show ?thesis by (simp add: step_def setPriority_def)
next
  case (SelectCategory v)
  with assms show ?thesis by (simp add: step_def setCategory_def)
next
  case (SelectDueDate v)
  with assms show ?thesis by (simp add: step_def setDueDate_def)
next
  case (Submit thr)
  show ?thesis
  proof (cases "loading (ui (world s))")
    case True
    with assms Submit show ?thesis by (simp add: step_def submitButtonDisabled_def)
  next
    case idle: False
    show ?thesis
    proof (cases "fst (validateForm (ui (world s)))")
      case True
      with assms Submit idle show ?thesis
        by (cases thr)
           (simp_all add: step_def submitButtonDisabled_def handleSubmit_valid
              afterAwait_failed Let_def)
    next
      case False
      with assms Submit idle show ?thesis
        by (cases thr)
           (simp_all add: step_def submitButtonDisabled_def handleSubmit_invalid)
    qed
  qed
next
  case (Settle r)
  with assms show ?thesis
    by (cases r)
       (auto simp: step_def afterAwait_failed afterAwait_fulfilled split: if_splits)
qed

lemma run_keeps_pending_in_step_with_loading:
  "pending s = (if loading (ui (world s)) then 1 else 0) \<Longrightarrow>
     pending (run p s evs) = (if loading (ui (world (run p s evs))) then 1 else 0)"
proof (induction evs arbitrary: s)
  case Nil
  then show ?case by simp
next
  case (Cons ev evs)
  from Cons.prems have "pending (step p ev s) = (if loading (ui (world (step p ev s))) then 1 else 0)"
    by (rule step_keeps_pending_in_step_with_loading)
  then show ?case using Cons.IH by simp
qed

lemma startSession_idle:
  "pending (startSession parseDate p) = 0" "\<not> loading (ui (world (startSession parseDate p)))"
  by (simp_all add: startSession_def mount_def initialState_def)

lemma run_type_and_submit:
  "run propsCreate (startSession parsesNothing propsCreate)
      [ChangeField Title (js ''Buy milk''), Submit None] =
     \<lparr> world =
         \<lparr> ui = \<lparr> formData = \<lparr> title = js ''Buy milk'', description = [] \<rparr>,
                  category = None, priority = js ''medium'', dueDate = None, loading = True,
                  validationErrors = \<lparr> errTitle = None, errDescription = None \<rparr>,
                  error = [] \<rparr>,
           calls = [\<lparr> argTitle = js ''Buy milk'', argDescription = [], argCategory = None,
                      argPriority = js ''medium'', argDueDate = None \<rparr>],
           toasts = [] \<rparr>,
       pending = 1 \<rparr>"
proof -
  have s: "step propsCreate (ChangeField Title (js ''Buy milk'')) (startSession parsesNothing propsCreate) =
      \<lparr> world = \<lparr> ui = \<lparr> formData = \<lparr> title = js ''Buy milk'', description = [] \<rparr>,
        category = None, priority = js ''medium'', dueDate = None, loading = False,
        validationErrors = \<lparr> errTitle = None, errDescription = None \<rparr>,
        error = [] \<rparr>, calls = [], toasts = [] \<rparr>, pending = 0 \<rparr>"
    by (simp add: step_def startSession_def mount_def titleInputDisabled_def handleChange_def
        initialState_def propsCreate_def setField_def getError_def truthyOpt_def Let_def)
  have t: "trim (js ''Buy milk'') = js ''Buy milk''"
    by (simp add: trim_def js_def isWhiteSpace_def)
  have v: "fst (validateForm \<lparr> formData = \<lparr> title = js ''Buy milk'', description = [] \<rparr>,
        category = None, priority = js ''medium'', dueDate = None, loading = False,
        validationErrors = \<lparr> errTitle = None, errDescription = None \<rparr>,
        error = [] \<rparr>)"
    by (simp add: validateForm_fst titleError_cases descriptionError_def js_def isWhiteSpace_def)
  have "run propsCreate (startSession parsesNothing propsCreate)
      [ChangeField Title (js ''Buy milk''), Submit None] =
     step propsCreate (Submit None)
       (step propsCreate (ChangeField Title (js ''Buy milk'')) (startSession parsesNothing propsCreate))"
    by (simp only: run.simps)
  also have "\<dots> = step propsCreate (Submit None)
      \<lparr> world = \<lparr> ui = \<lparr> formData = \<lparr> title = js ''Buy milk'', description = [] \<rparr>,
        category = None, priority = js ''medium'', dueDate = None, loading = False,
        validationErrors = \<lparr> errTitle = None, errDescription = None \<rparr>,
        error = [] \<rparr>, calls = [], toasts = [] \<rparr>, pending = 0 \<rparr>"
    by (simp only: s)
  also have "\<dots> = \<lparr> world =
         \<lparr> ui = \<lparr> formData = \<lparr> title = js ''Buy milk'', description = [] \<rparr>,
                  category = None, priority = js ''medium'', dueDate = None, loading = True,
                  validationErrors = \<lparr> errTitle = None, errDescription = None \<rparr>,
                  error = [] \<rparr>,
           calls = [\<lparr> argTitle = js ''Buy milk'', argDescription = [], argCategory = None,
                      argPriority = js ''medium'', argDueDate = None \<rparr>],
           toasts = [] \<rparr>,
       pending = 1 \<rparr>"
    using v by (simp add: step_def submitButtonDisabled_def handleSubmit_valid submitArgs_def t
        trim_Nil_iff)
  finally show ?thesis .
qed

text \<open>
  Claim C5. In every state that a mounted form reaches by its events, \<^verbatim>\<open>loading\<close> is
  true exactly when one call of \<^verbatim>\<open>onSubmit\<close> is in flight, and there is never more than
  one. While a call is in flight the submit button is disabled and a press of it
  changes nothing: no cell, no call of \<^verbatim>\<open>onSubmit\<close>, no notification. A submit is accepted
  only while \<^verbatim>\<open>loading\<close> is false.
\<close>

theorem submit_while_in_flight:
  "pending (run p (startSession parseDate p) evs)
     = (if loading (ui (world (run p (startSession parseDate p) evs))) then 1 else 0)
   \<and> (0 < pending (run p (startSession parseDate p) evs)
        \<or> loading (ui (world (run p (startSession parseDate p) evs))) \<longrightarrow>
      submitButtonDisabled (ui (world (run p (startSession parseDate p) evs)))
      \<and> step p (Submit thr) (run p (startSession parseDate p) evs)
          = run p (startSession parseDate p) evs)"
proof -
  have inv: "pending (run p (startSession parseDate p) evs)
     = (if loading (ui (world (run p (startSession parseDate p) evs))) then 1 else 0)"
    by (rule run_keeps_pending_in_step_with_loading) (simp add: startSession_idle)
  then show ?thesis
    by (auto simp: step_def submitButtonDisabled_def split: if_splits)
qed

text \<open>
  A title is typed into a freshly mounted form and submitted; while the promise is
  unsettled a second press leaves the single call in the trace.
\<close>

theorem submit_while_in_flight_witness:
  "0 < pending (run propsCreate (startSession parsesNothing propsCreate)
                  [ChangeField Title (js ''Buy milk''), Submit None])
   \<and> loading (ui (world (run propsCreate (startSession parsesNothing propsCreate)
                  [ChangeField Title (js ''Buy milk''), Submit None])))
   \<and> step propsCreate (Submit None)
        (run propsCreate (startSession parsesNothing propsCreate)
           [ChangeField Title (js ''Buy milk''), Submit None])
       = run propsCreate (startSession parsesNothing propsCreate)
           [ChangeField Title (js ''Buy milk''), Submit None]
   \<and> length (calls (world (step propsCreate (Submit None)
        (run propsCreate (startSession parsesNothing propsCreate)
           [ChangeField Title (js ''Buy milk''), Submit None])))) = 1"
proof -
  have h: "0 < pending (run propsCreate (startSession parsesNothing propsCreate)
                  [ChangeField Title (js ''Buy milk''), Submit None])"
    by (simp only: run_type_and_submit) simp
  have l: "loading (ui (world (run propsCreate (startSession parsesNothing propsCreate)
                  [ChangeField Title (js ''Buy milk''), Submit None])))"
    by (simp only: run_type_and_submit) simp
  have c: "length (calls (world (run propsCreate (startSession parsesNothing propsCreate)
                  [ChangeField Title (js ''Buy milk''), Submit None]))) = 1"
    by (simp only: run_type_and_submit) simp
  from submit_while_in_flight [of propsCreate parsesNothing
      "[ChangeField Title (js ''Buy milk''), Submit None]" None] h
  have "step propsCreate (Submit None)
        (run propsCreate (startSession parsesNothing propsCreate)
           [ChangeField Title (js ''Buy milk''), Submit None])
       = run propsCreate (startSession parsesNothing propsCreate)
           [ChangeField Title (js ''Buy milk''), Submit None]"
    by blast
  with h l c show ?thesis by simp
qed

text \<open>
  Once the promise has settled the button is enabled again: of three presses, the
  second is dropped and the third, after the rejection, calls \<^verbatim>\<open>onSubmit\<close> again.
\<close>

lemma start_edit_valid: "fst (validateForm (initialState parsesNothing propsEdit))"
  by (simp add: validateForm_fst titleError_cases descriptionError_def initialState_def
      propsEdit_def js_def isWhiteSpace_def)

lemma submit_accepted_after_settlement:
  "length (calls (world (run propsEdit (startSession parsesNothing propsEdit)
      [Submit None, Submit None]))) = 1
   \<and> length (calls (world (run propsEdit (startSession parsesNothing propsEdit)
      [Submit None, Submit None, Settle (Inl (ErrorInstance (js ''Server error''))),
       Submit None]))) = 2"
proof -
  let ?s0 = "startSession parsesNothing propsEdit"
  let ?w1 = "(world ?s0)\<lparr>ui := (ui (world ?s0))\<lparr>error := [],
                 validationErrors := \<lparr>errTitle = None, errDescription = None\<rparr>,
                 loading := True\<rparr>,
               calls := [submitArgs (ui (world ?s0))]\<rparr>"
  have v0: "fst (validateForm (ui (world ?s0)))"
    using start_edit_valid by (simp add: startSession_def mount_def)
  have idle0: "\<not> loading (ui (world ?s0))" and c0: "calls (world ?s0) = []" and p0: "pending ?s0 = 0"
    by (simp_all add: startSession_def mount_def initialState_def)
  have s1: "step propsEdit (Submit None) ?s0 = \<lparr> world = ?w1, pending = 1 \<rparr>"
    using v0 idle0 c0 p0 by (simp add: step_def submitButtonDisabled_def handleSubmit_valid)
  have s2: "step propsEdit (Submit None) \<lparr> world = ?w1, pending = 1 \<rparr> = \<lparr> world = ?w1, pending = 1 \<rparr>"
    by (simp add: step_def submitButtonDisabled_def)
  let ?w3 = "?w1\<lparr>ui := (ui ?w1)\<lparr>error := js ''Server error'', loading := False\<rparr>,
                 toasts := toasts ?w1 @ [js ''Failed to save task'']\<rparr>"
  have s3: "step propsEdit (Settle (Inl (ErrorInstance (js ''Server error'')))) \<lparr> world = ?w1, pending = 1 \<rparr>
      = \<lparr> world = ?w3, pending = 0 \<rparr>"
    by (simp add: step_def afterAwait_failed errorMessage_def)
  have v3: "fst (validateForm (ui ?w3))"
    using v0 by (simp add: validateForm_fst)
  have s4: "length (calls (world (step propsEdit (Submit None) \<lparr> world = ?w3, pending = 0 \<rparr>))) = 2"
    using v3 by (simp add: step_def submitButtonDisabled_def handleSubmit_valid c0)
  show ?thesis
    by (simp only: run.simps s1 s2 s3 s4) (simp add: c0)
qed

subsection \<open>After a successful submission\<close>

text \<open>
  Claim C6. For a form mounted with an empty initial title and an empty initial
  description, a submit of a valid draft whose call of \<^verbatim>\<open>onSubmit\<close> is fulfilled leaves
  the title and the description empty, the category \<^verbatim>\<open>null\<close>, the priority
  \<^verbatim>\<open>'medium'\<close> and the due date \<^verbatim>\<open>null\<close>.
\<close>

theorem handleSubmit_create_success_resets:
  "initialTitle p = [] \<Longrightarrow> initialDescription p = [] \<Longrightarrow>
   fst (validateForm (ui w)) \<Longrightarrow> cb (submitArgs (ui w)) = Fulfilled \<Longrightarrow>
     formData (ui (fst (handleSubmit p cb w))) = \<lparr> title = [], description = [] \<rparr>
     \<and> category (ui (fst (handleSubmit p cb w))) = None
     \<and> priority (ui (fst (handleSubmit p cb w))) = js ''medium''
     \<and> dueDate (ui (fst (handleSubmit p cb w))) = None"
  by (simp add: handleSubmit_valid afterAwait_fulfilled resetDraft_def Let_def)

text \<open>
  A form mounted without initial values, holding a draft with a category, a high
  priority and a due date.
\<close>

theorem handleSubmit_create_success_resets_witness:
  "initialTitle propsCreate = [] \<and> initialDescription propsCreate = []
   \<and> fst (validateForm (ui (exWorld (js ''Buy milk'') (js ''2 litres''))))
   \<and> formData (ui (exWorld (js ''Buy milk'') (js ''2 litres'')))
       = \<lparr> title = js ''Buy milk'', description = js ''2 litres'' \<rparr>
   \<and> formData (ui (fst (handleSubmit propsCreate fulfils
         (exWorld (js ''Buy milk'') (js ''2 litres''))))) = \<lparr> title = [], description = [] \<rparr>
   \<and> category (ui (fst (handleSubmit propsCreate fulfils
         (exWorld (js ''Buy milk'') (js ''2 litres''))))) = None
   \<and> priority (ui (fst (handleSubmit propsCreate fulfils
         (exWorld (js ''Buy milk'') (js ''2 litres''))))) = js ''medium''
   \<and> dueDate (ui (fst (handleSubmit propsCreate fulfils
         (exWorld (js ''Buy milk'') (js ''2 litres''))))) = None"
proof -
  have h: "fst (validateForm (ui (exWorld (js ''Buy milk'') (js ''2 litres''))))"
    using exState_valid by (simp add: exWorld_def)
  have t: "initialTitle propsCreate = []" and d: "initialDescription propsCreate = []"
    by (simp_all add: propsCreate_def)
  show ?thesis
    using h t d handleSubmit_create_success_resets [OF t d h, of fulfils]
    by (simp add: exWorld_def exState_def)
qed

text \<open>
  Claim C7. For a form mounted with a non-empty initial title, a submit of a valid
  draft whose call of \<^verbatim>\<open>onSubmit\<close> is fulfilled leaves title, description, category,
  priority and due date as they were before the submit.
\<close>

theorem handleSubmit_edit_success_keeps_draft:
  "initialTitle p \<noteq> [] \<Longrightarrow>
   fst (validateForm (ui w)) \<Longrightarrow> cb (submitArgs (ui w)) = Fulfilled \<Longrightarrow>
     formData (ui (fst (handleSubmit p cb w))) = formData (ui w)
     \<and> category (ui (fst (handleSubmit p cb w))) = category (ui w)
     \<and> priority (ui (fst (handleSubmit p cb w))) = priority (ui w)
     \<and> dueDate (ui (fst (handleSubmit p cb w))) = dueDate (ui w)"
  by (simp add: handleSubmit_valid afterAwait_fulfilled Let_def)

text \<open>
  The same draft in a form mounted on the task \<^verbatim>\<open>'Buy milk'\<close>.
\<close>

theorem handleSubmit_edit_success_keeps_draft_witness:
  "initialTitle propsEdit \<noteq> []
   \<and> fst (validateForm (ui (exWorld (js ''Buy milk'') (js ''2 litres''))))
   \<and> formData (ui (fst (handleSubmit propsEdit fulfils
         (exWorld (js ''Buy milk'') (js ''2 litres'')))))
       = \<lparr> title = js ''Buy milk'', description = js ''2 litres'' \<rparr>
   \<and> category (ui (fst (handleSubmit propsEdit fulfils
         (exWorld (js ''Buy milk'') (js ''2 litres''))))) = Some (js ''work'')
   \<and> priority (ui (fst (handleSubmit propsEdit fulfils
         (exWorld (js ''Buy milk'') (js ''2 litres''))))) = js ''high''
   \<and> dueDate (ui (fst (handleSubmit propsEdit fulfils
         (exWorld (js ''Buy milk'') (js ''2 litres''))))) = Some (TimeValue 86400000)"
proof -
  have h: "fst (validateForm (ui (exWorld (js ''Buy milk'') (js ''2 litres''))))"
    using exState_valid by (simp add: exWorld_def)
  have t: "initialTitle propsEdit \<noteq> []"
    by (simp add: propsEdit_def js_def)
  show ?thesis
    using h t handleSubmit_edit_success_keeps_draft [OF t h, of fulfils]
    by (simp add: exWorld_def exState_def)
qed

subsection \<open>Editing a field\<close>

text \<open>
  Claim C8. An edit of a field whose recorded validation error is a non-empty message
  writes the new value into the draft and removes that entry; the entry of the other
  field and every other cell keep their values, and the new value is not validated.
\<close>

theorem handleChange_clears_own_error:
  "getError (validationErrors s) name = Some m \<Longrightarrow> m \<noteq> [] \<Longrightarrow>
     handleChange name v s =
       (case name of
          Title \<Rightarrow> s\<lparr> formData := (formData s)\<lparr>title := v\<rparr>,
                       validationErrors := (validationErrors s)\<lparr>errTitle := None\<rparr> \<rparr>
        | Description \<Rightarrow> s\<lparr> formData := (formData s)\<lparr>description := v\<rparr>,
                             validationErrors := (validationErrors s)\<lparr>errDescription := None\<rparr> \<rparr>)
     \<and> getError (validationErrors (handleChange name v s)) name = None"
  by (cases name)
     (simp_all add: handleChange_def setField_def getError_def clearError_def truthyOpt_def
        truthy_def Let_def)

text \<open>
  Emptying the title of a form that shows both errors removes the title error although
  the empty title is invalid, and keeps the description error; editing the description
  removes the description error and keeps the title error.
\<close>

theorem handleChange_clears_own_error_witness:
  "getError (validationErrors (exState [] [])) Title = Some (js ''Task title is required'')
   \<and> js ''Task title is required'' \<noteq> []
   \<and> handleChange Title [] (exState (js ''Buy'') []) =
       \<lparr> formData = \<lparr> title = [], description = [] \<rparr>,
         category = Some (js ''work''),
         priority = js ''high'',
         dueDate = Some (TimeValue 86400000),
         loading = False,
         validationErrors =
           \<lparr> errTitle = None,
             errDescription = Some (js ''Description must be under 1000 characters'') \<rparr>,
         error = js ''Network down'' \<rparr>
   \<and> validationErrors (handleChange Description (js ''2 litres'') (exState (js ''Buy'') [])) =
       \<lparr> errTitle = Some (js ''Task title is required''), errDescription = None \<rparr>"
proof -
  have t: "getError (validationErrors (exState (js ''Buy'') [])) Title = Some (js ''Task title is required'')"
    and d: "getError (validationErrors (exState (js ''Buy'') [])) Description
              = Some (js ''Description must be under 1000 characters'')"
    and t0: "getError (validationErrors (exState [] [])) Title = Some (js ''Task title is required'')"
    by (simp_all add: exState_def getError_def)
  have n: "js ''Task title is required'' \<noteq> []" "js ''Description must be under 1000 characters'' \<noteq> []"
    by (simp_all add: js_def)
  show ?thesis
    using t0 n
      handleChange_clears_own_error [OF t n(1), of "[]"]
      handleChange_clears_own_error [OF d n(2), of "js ''2 litres''"]
    by (simp add: exState_def)
qed

subsection \<open>The arguments of the persistence callback\<close>

lemma submitArgs_contract:
  assumes "fst (validateForm s)"
  shows "trim (argTitle (submitArgs s)) = argTitle (submitArgs s)"
    and "argTitle (submitArgs s) \<noteq> []"
    and "length (argTitle (submitArgs s)) \<le> 200"
    and "trim (argDescription (submitArgs s)) = argDescription (submitArgs s)"
    and "length (argDescription (submitArgs s)) \<le> 1000"
proof -
  from assms have t: "trim (title (formData s)) \<noteq> []" "length (title (formData s)) \<le> 200"
    and d: "length (description (formData s)) \<le> 1000"
    by (simp_all add: validateForm_fst titleError_cases descriptionError_def trim_Nil_iff
        split: if_splits)
  show "trim (argTitle (submitArgs s)) = argTitle (submitArgs s)"
    and "trim (argDescription (submitArgs s)) = argDescription (submitArgs s)"
    by (simp_all add: submitArgs_def trim_idem)
  show "argTitle (submitArgs s) \<noteq> []"
    using t by (simp add: submitArgs_def)
  show "length (argTitle (submitArgs s)) \<le> 200"
    using t(2) trim_length [of "title (formData s)"] by (simp add: submitArgs_def)
  show "length (argDescription (submitArgs s)) \<le> 1000"
    using d trim_length [of "description (formData s)"] by (simp add: submitArgs_def)
qed

lemma handleSubmit_calls:
  "calls (fst (handleSubmit p cb w)) =
     (if fst (validateForm (ui w)) then calls w @ [submitArgs (ui w)] else calls w)"
proof (cases "fst (validateForm (ui w))")
  case True
  then show ?thesis
    by (cases "cb (submitArgs (ui w))")
       (simp_all add: handleSubmit_valid afterAwait_fulfilled afterAwait_failed Let_def)
next
  case False
  then show ?thesis by (simp add: handleSubmit_invalid)
qed

text \<open>
  Claim C9. A run of \<^verbatim>\<open>handleSubmit\<close> keeps the earlier calls of \<^verbatim>\<open>onSubmit\<close>, and
  every call it adds has a title that is its own trim, is not empty and has at most 200
  code units, and a description that is its own trim and has at most 1000 code units.
\<close>

theorem handleSubmit_calls_meet_contract:
  "take (length (calls w)) (calls (fst (handleSubmit p cb w))) = calls w
   \<and> (\<forall>a \<in> set (drop (length (calls w)) (calls (fst (handleSubmit p cb w)))).
         trim (argTitle a) = argTitle a \<and> argTitle a \<noteq> [] \<and> length (argTitle a) \<le> 200
         \<and> trim (argDescription a) = argDescription a \<and> length (argDescription a) \<le> 1000)"
  by (simp add: handleSubmit_calls submitArgs_contract)

text \<open>
  A draft with white space around the title and before the description: the one call
  gets both trimmed.
\<close>

theorem handleSubmit_calls_meet_contract_witness:
  "calls (fst (handleSubmit propsCreate fulfils
      (exWorld (js ''  Buy milk '') (js '' 2 litres'')))) =
     [\<lparr> argTitle = js ''Buy milk'', argDescription = js ''2 litres'',
        argCategory = Some (js ''work''), argPriority = js ''high'',
        argDueDate = Some (TimeValue 86400000) \<rparr>]
   \<and> trim (js ''Buy milk'') = js ''Buy milk'' \<and> js ''Buy milk'' \<noteq> []
   \<and> length (js ''Buy milk'') \<le> 200
   \<and> trim (js ''2 litres'') = js ''2 litres'' \<and> length (js ''2 litres'') \<le> 1000"
proof -
  have v: "fst (validateForm (ui (exWorld (js ''  Buy milk '') (js '' 2 litres''))))"
    by (simp add: exWorld_def exState_def validateForm_fst titleError_cases descriptionError_def
        js_def isWhiteSpace_def)
  have c: "calls (fst (handleSubmit propsCreate fulfils
      (exWorld (js ''  Buy milk '') (js '' 2 litres'')))) =
     [\<lparr> argTitle = js ''Buy milk'', argDescription = js ''2 litres'',
        argCategory = Some (js ''work''), argPriority = js ''high'',
        argDueDate = Some (TimeValue 86400000) \<rparr>]"
    using v by (simp add: handleSubmit_calls)
      (simp add: exWorld_def exState_def submitArgs_def trim_def js_def isWhiteSpace_def)
  show ?thesis
    using handleSubmit_calls_meet_contract [of "exWorld (js ''  Buy milk '') (js '' 2 litres'')"
        propsCreate fulfils]
    by (simp add: c) (simp add: exWorld_def)
qed

subsection \<open>The whole-form message\<close>

text \<open>
  Claim C10. \<^verbatim>\<open>handleSubmit\<close> sets the whole-form message to the empty string before
  it validates: its result does not depend on the message recorded before, and the
  message is empty after a submit that fails validation, and after a submit of a valid
  draft whose call is fulfilled or still pending.
\<close>

theorem handleSubmit_clears_error_first:
  "handleSubmit p cb (w\<lparr>ui := (ui w)\<lparr>error := m\<rparr>\<rparr>) = handleSubmit p cb w
   \<and> (\<not> fst (validateForm (ui w)) \<longrightarrow> error (ui (fst (handleSubmit p cb w))) = [])
   \<and> (fst (validateForm (ui w))
        \<and> (cb (submitArgs (ui w)) = Fulfilled \<or> cb (submitArgs (ui w)) = Pending) \<longrightarrow>
      error (ui (fst (handleSubmit p cb w))) = [])"
proof -
  have "handleSubmit p cb (w\<lparr>ui := (ui w)\<lparr>error := m\<rparr>\<rparr>) = handleSubmit p cb w"
    by (simp add: handleSubmit_def submitArgs_def split_beta Let_def)
  moreover have "\<not> fst (validateForm (ui w)) \<longrightarrow> error (ui (fst (handleSubmit p cb w))) = []"
    by (simp add: handleSubmit_invalid)
  moreover have "fst (validateForm (ui w))
        \<and> (cb (submitArgs (ui w)) = Fulfilled \<or> cb (submitArgs (ui w)) = Pending) \<longrightarrow>
      error (ui (fst (handleSubmit p cb w))) = []"
    by (auto simp: handleSubmit_valid afterAwait_fulfilled resetDraft_def Let_def)
  ultimately show ?thesis by blast
qed

text \<open>
  A form showing \<^verbatim>\<open>'Network down'\<close>, submitted with a blank title and with a valid
  draft.
\<close>

theorem handleSubmit_clears_error_first_witness:
  "error (ui (exWorld (js ''   '') (js ''2 litres''))) = js ''Network down''
   \<and> \<not> fst (validateForm (ui (exWorld (js ''   '') (js ''2 litres''))))
   \<and> error (ui (fst (handleSubmit propsEdit fulfils (exWorld (js ''   '') (js ''2 litres''))))) = []
   \<and> fst (validateForm (ui (exWorld (js ''Buy milk'') (js ''2 litres''))))
   \<and> error (ui (fst (handleSubmit propsEdit neverSettles (exWorld (js ''Buy milk'') (js ''2 litres''))))) = []"
proof -
  have i: "\<not> fst (validateForm (ui (exWorld (js ''   '') (js ''2 litres''))))"
    by (simp add: exWorld_def exState_def validateForm_fst titleError_cases js_def isWhiteSpace_def)
  have h: "fst (validateForm (ui (exWorld (js ''Buy milk'') (js ''2 litres''))))"
    using exState_valid by (simp add: exWorld_def)
  have e: "error (ui (exWorld (js ''   '') (js ''2 litres''))) = js ''Network down''"
    by (simp add: exWorld_def exState_def)
  show ?thesis
    using i h e
      handleSubmit_clears_error_first [where p = propsEdit and cb = fulfils
        and w = "exWorld (js ''   '') (js ''2 litres'')" and m = "[]"]
      handleSubmit_clears_error_first [where p = propsEdit and cb = neverSettles
        and w = "exWorld (js ''Buy milk'') (js ''2 litres'')" and m = "[]"]
    by simp
qed

end
